theory Spec2Isabelle
  imports Complex_Main "HOL-Library.List_Lexorder" "HOL-Library.Multiset"
begin

section \<open>Text primitives\<close>

text \<open>
  Python text is modelled by \<^typ>\<open>string\<close>, one \<^typ>\<open>char\<close> per code point, over the
  code points below 256.  An exception is modelled by the text that \<open>str(e)\<close> gives.
\<close>

type_synonym exn = string

text \<open>The regular-expression class \<open>\d\<close>: below code point 256 these are the ten ASCII digits.\<close>

definition is_d :: "char \<Rightarrow> bool" where
  "is_d c = (48 \<le> (of_char c :: nat) \<and> (of_char c :: nat) \<le> 57)"

text \<open>
  \<open>str.isdigit\<close> accepts more characters than \<open>\d\<close>: below code point 256 also the
  superscript digits (code points 178, 179 and 185).  It is false for the empty text.
\<close>

definition isdigit_char :: "char \<Rightarrow> bool" where
  "isdigit_char c = (is_d c \<or> (of_char c :: nat) \<in> {178, 179, 185})"

definition isdigit :: "string \<Rightarrow> bool" where
  "isdigit s = (s \<noteq> [] \<and> list_all isdigit_char s)"

text \<open>\<open>str.isspace\<close> for one character, and \<open>str.strip()\<close>.\<close>

definition is_space :: "char \<Rightarrow> bool" where
  "is_space c = (let n = (of_char c :: nat) in
     (9 \<le> n \<and> n \<le> 13) \<or> (28 \<le> n \<and> n \<le> 32) \<or> n = 133 \<or> n = 160)"

definition strip :: "string \<Rightarrow> string" where
  "strip s = rev (dropWhile is_space (rev (dropWhile is_space s)))"

text \<open>\<open>sub in s\<close> for two texts.\<close>

fun contains :: "string \<Rightarrow> string \<Rightarrow> bool" where
  "contains sub [] = (sub = [])"
| "contains sub (c # cs) = (take (length sub) (c # cs) = sub \<or> contains sub cs)"

text \<open>\<open>n.replace('.', '', 1)\<close>: the first dot is removed.\<close>

fun replace_dot_once :: "string \<Rightarrow> string" where
  "replace_dot_once [] = []"
| "replace_dot_once (c # cs) = (if c = CHR ''.'' then cs else c # replace_dot_once cs)"

text \<open>\<open>s.replace('Z', '+00:00')\<close>: every \<open>Z\<close> is replaced.\<close>

fun replace_Z :: "string \<Rightarrow> string" where
  "replace_Z [] = []"
| "replace_Z (c # cs) = (if c = CHR ''Z'' then ''+00:00'' @ replace_Z cs else c # replace_Z cs)"

section \<open>The two regular expressions\<close>

text \<open>
  \<open>re.findall(r'\d+\.\d+|\d+', x)\<close>.  The scan goes left to right.  At a digit the greedy
  \<open>\d+\<close> takes the whole run of digits; the first alternative succeeds when a dot and one
  more digit follow (giving up digits of the run cannot help, since then a digit, not a
  dot, comes next), and it takes the whole second run; otherwise the second alternative
  matches the first run alone.  The scan resumes after the match.  A character that is
  not a digit starts no match and is skipped.
\<close>

function findall_numbers :: "string \<Rightarrow> string list" where
  "findall_numbers [] = []"
| "findall_numbers (c # cs) =
    (if is_d c then
       (case dropWhile is_d cs of
          d # f # rest \<Rightarrow>
            if d = CHR ''.'' \<and> is_d f
            then ((c # takeWhile is_d cs) @ d # f # takeWhile is_d rest)
                   # findall_numbers (dropWhile is_d rest)
            else (c # takeWhile is_d cs) # findall_numbers (d # f # rest)
        | rest \<Rightarrow> (c # takeWhile is_d cs) # findall_numbers rest)
     else findall_numbers cs)"
  by pat_completeness auto

termination
proof (relation "measure length", goal_cases)
  case 1
  show ?case by simp
next
  case (2 c cs)
  then show ?case by simp
next
  case prems: (3 c cs)
  show ?case
    using prems length_dropWhile_le [of is_d cs] by auto
next
  case prems: (4 c cs)
  show ?case
    using prems length_dropWhile_le [of is_d cs]
    by (auto intro: le_less_trans [OF length_dropWhile_le])
next
  case prems: (5 c cs)
  show ?case
    using prems length_dropWhile_le [of is_d cs] by auto
next
  case prems: (6 c cs)
  show ?case
    using prems length_dropWhile_le [of is_d cs] by auto
qed

text \<open>
  \<open>re.match(r'V?\d+(\.\d+)*', name, re.IGNORECASE)\<close> is tested for truth only.  The match is
  anchored at the start; the trailing group may match nothing, so a match exists exactly
  when the name starts with a digit, or with \<open>V\<close> or \<open>v\<close> and then a digit.
\<close>

fun version_like :: "string \<Rightarrow> bool" where
  "version_like [] = False"
| "version_like (c # cs) =
     (is_d c \<or> ((c = CHR ''V'' \<or> c = CHR ''v'') \<and> (case cs of [] \<Rightarrow> False | d # _ \<Rightarrow> is_d d)))"

section \<open>Floating-point values of number tokens\<close>

text \<open>
  A Python float that is not negative and not a NaN: a finite binary64 value, given
  exactly as a rational, or positive infinity.  Python compares them by value.
\<close>

datatype pyfloat = Finite rat | Infinity

instantiation pyfloat :: linorder
begin

fun less_eq_pyfloat :: "pyfloat \<Rightarrow> pyfloat \<Rightarrow> bool" where
  "less_eq_pyfloat (Finite a) (Finite b) = (a \<le> b)"
| "less_eq_pyfloat _ Infinity = True"
| "less_eq_pyfloat Infinity (Finite b) = False"

definition less_pyfloat :: "pyfloat \<Rightarrow> pyfloat \<Rightarrow> bool" where
  "less_pyfloat x y = (x \<le> y \<and> \<not> y \<le> x)"

instance
proof
  fix x y z :: pyfloat
  show "(x < y) = (x \<le> y \<and> \<not> y \<le> x)"
    by (simp add: less_pyfloat_def)
  show "x \<le> x"
    by (cases x) simp_all
  show "x \<le> y \<Longrightarrow> y \<le> z \<Longrightarrow> x \<le> z"
    by (cases x; cases y; cases z) simp_all
  show "x \<le> y \<Longrightarrow> y \<le> x \<Longrightarrow> x = y"
    by (cases x; cases y) simp_all
  show "x \<le> y \<or> y \<le> x"
    by (cases x; cases y) auto
qed

end

definition digit_value :: "char \<Rightarrow> int" where
  "digit_value c = of_char c - 48"

definition digits_value :: "string \<Rightarrow> int" where
  "digits_value ds = foldl (\<lambda>n c. 10 * n + digit_value c) 0 ds"

definition pow2 :: "int \<Rightarrow> rat" where
  "pow2 e = (if 0 \<le> e then 2 ^ nat e else 1 / 2 ^ nat (- e))"

function bit_length :: "int \<Rightarrow> int" where
  "bit_length n = (if n \<le> 0 then 0 else 1 + bit_length (n div 2))"
  by pat_completeness auto

termination
  by (relation "measure nat") auto

declare bit_length.simps [simp del]

text \<open>The integer part of the binary logarithm of \<open>a / b\<close>, for positive \<open>a\<close> and \<open>b\<close>.\<close>

definition floor_log2 :: "int \<Rightarrow> int \<Rightarrow> int" where
  "floor_log2 a b = (let g = bit_length a - bit_length b in
     if pow2 g * of_int b \<le> (of_int a :: rat) then g else g - 1)"

definition round_half_even :: "rat \<Rightarrow> int" where
  "round_half_even q = (let f = \<lfloor>q\<rfloor>; d = q - of_int f in
     if d < 1 / 2 then f else if 1 / 2 < d then f + 1 else if even f then f else f + 1)"

text \<open>
  \<open>float\<close> of a decimal numeral without sign, \<open>n \<ge> 0\<close> being its digits read as an integer
  and \<open>k\<close> the number of digits after the dot: the binary64 value nearest to \<open>n / 10 ^ k\<close>, ties to the
  even significand (53 bits, least exponent \<open>-1074\<close>); from \<open>2 ^ 1024\<close> on the result is
  infinity.
\<close>

definition binary64 :: "int \<Rightarrow> nat \<Rightarrow> pyfloat" where
  "binary64 n k = (if n \<le> 0 then Finite 0 else
     (let q = (of_int n / of_int (10 ^ k) :: rat);
          e = max (floor_log2 n (10 ^ k) - 52) (- 1074);
          m = round_half_even (q / pow2 e);
          v = of_int m * pow2 e
      in if pow2 1024 \<le> v then Infinity else Finite v))"

definition float_error :: "string \<Rightarrow> exn" where
  "float_error s = ''could not convert string to float: '' @ [CHR 39] @ s @ [CHR 39]"

text \<open>
  \<open>float(n)\<close> on texts made of digits and dots, which are the texts the guard of the sort
  key can let through apart from those with a superscript digit: digits with at most
  one dot and at least one digit are read as a decimal numeral, and every other text of
  that kind raises ValueError.  (Signs, exponents, underscores, surrounding blanks and
  the words for infinity and NaN, which \<open>float\<close> also reads, contain a character that is
  neither a digit nor a dot; they are not modelled.)
\<close>

definition py_float :: "string \<Rightarrow> exn + pyfloat" where
  "py_float s =
     (case dropWhile is_d s of
        [] \<Rightarrow> if s = [] then Inl (float_error s) else Inr (binary64 (digits_value s) 0)
      | d # fp \<Rightarrow>
          if d = CHR ''.'' \<and> list_all is_d fp \<and> 0 < length (takeWhile is_d s @ fp)
          then Inr (binary64 (digits_value (takeWhile is_d s @ fp)) (length fp))
          else Inl (float_error s))"

section \<open>Sorting version labels\<close>

text \<open>A list comprehension whose element expression may raise: the first raise ends it.\<close>

fun collect :: "('a \<Rightarrow> exn + 'b) \<Rightarrow> 'a list \<Rightarrow> exn + 'b list" where
  "collect f [] = Inr []"
| "collect f (x # xs) =
     (case f x of
        Inl e \<Rightarrow> Inl e
      | Inr y \<Rightarrow> (case collect f xs of Inl e \<Rightarrow> Inl e | Inr ys \<Rightarrow> Inr (y # ys)))"

text \<open>
  The key function of both sorts (lines 173-174 and 247-248 are the same lambda):
  \<^verbatim>\<open>[float(n) if n.replace('.', '', 1).isdigit() else 0 for n in re.findall(r'\d+\.\d+|\d+', x)]\<close>.
  The integer 0 of the else branch compares as the float 0.0.
\<close>

definition version_key :: "string \<Rightarrow> exn + pyfloat list" where
  "version_key x =
     collect (\<lambda>n. if isdigit (replace_dot_once n) then py_float n else Inr (Finite 0))
       (findall_numbers x)"

text \<open>
  \<open>list.sort(key=..., reverse=True)\<close>: the keys of all elements are computed first, in
  order, and an exception there leaves the list as it was.  The sort is stable, and
  with \<open>reverse=True\<close> it still keeps elements of equal key in their input order: the
  list is reversed, sorted stably in ascending order, and reversed again.  Lists are
  compared lexicographically.
\<close>

definition sort_reverse :: "('a \<Rightarrow> exn + 'k::linorder) \<Rightarrow> 'a list \<Rightarrow> exn + 'a list" where
  "sort_reverse key xs =
     (case collect key xs of
        Inl e \<Rightarrow> Inl e
      | Inr ks \<Rightarrow> Inr (map snd (rev (sort_key fst (rev (zip ks xs))))))"

definition sort_versions :: "string list \<Rightarrow> exn + string list" where
  "sort_versions versions = sort_reverse version_key versions"

section \<open>Parsed pages\<close>

text \<open>
  A page as the HTML parser hands it over: elements with a tag name, the list of their
  classes (the parser splits the class attribute), their other attributes, and their
  children; runs of plain text; and strings of another class (comments, CDATA, and
  the text inside \<open>script\<close>, \<open>style\<close>, \<open>template\<close>, \<open>rt\<close> and \<open>rp\<close> elements), which the parser
  keeps apart from plain text.
\<close>

datatype node =
    Element string "string list" "(string \<times> string) list" "node list"
  | NavString string
  | OtherString string

fun descendants :: "node \<Rightarrow> node list" where
  "descendants (Element t cl ats ch) = concat (map (\<lambda>n. n # descendants n) ch)"
| "descendants (NavString s) = []"
| "descendants (OtherString s) = []"

text \<open>
  \<open>.text\<close>, which the program reads of \<open>a\<close> elements only: the runs of plain text below the
  node, concatenated in document order; strings of another class are left out.
\<close>

fun get_text :: "node \<Rightarrow> string" where
  "get_text (Element t cl ats ch) = concat (map get_text ch)"
| "get_text (NavString s) = s"
| "get_text (OtherString s) = []"

fun attr :: "node \<Rightarrow> string \<Rightarrow> string option" where
  "attr (Element t cl ats ch) a = map_of ats a"
| "attr (NavString s) a = None"
| "attr (OtherString s) a = None"

text \<open>
  The conditions the program puts on an element besides its tag name: none; one of its
  classes is in a list (\<open>class_='c'\<close>, \<open>class_=[...]\<close>, \<open>tag.c\<close>); an attribute equals a text
  (\<open>role='row'\<close>, \<open>tag[a="v"]\<close>); an attribute contains a text (\<open>tag[a*="v"]\<close>).
\<close>

datatype cond = AnyTag | HasClass "string list" | AttrEq string string | AttrContains string string

fun holds :: "cond \<Rightarrow> string list \<Rightarrow> (string \<times> string) list \<Rightarrow> bool" where
  "holds AnyTag cl ats = True"
| "holds (HasClass cs) cl ats = list_ex (\<lambda>c. c \<in> set cs) cl"
| "holds (AttrEq a v) cl ats = (map_of ats a = Some v)"
| "holds (AttrContains a v) cl ats = (case map_of ats a of None \<Rightarrow> False | Some w \<Rightarrow> contains v w)"

fun matches :: "string \<Rightarrow> cond \<Rightarrow> node \<Rightarrow> bool" where
  "matches name c (Element t cl ats ch) = (t = name \<and> holds c cl ats)"
| "matches name c (NavString s) = False"
| "matches name c (OtherString s) = False"

text \<open>
  \<open>find_all\<close> and \<open>select\<close> give the matching descendants in document order; \<open>find\<close> and
  \<open>select_one\<close> give the first of them, or \<open>None\<close>.
\<close>

definition find_all :: "string \<Rightarrow> cond \<Rightarrow> node \<Rightarrow> node list" where
  "find_all name c el = filter (matches name c) (descendants el)"

definition find_tag :: "string \<Rightarrow> cond \<Rightarrow> node \<Rightarrow> node option" where
  "find_tag name c el = (case find_all name c el of [] \<Rightarrow> None | x # _ \<Rightarrow> Some x)"

definition select :: "string \<Rightarrow> cond \<Rightarrow> node \<Rightarrow> node list" where
  "select name c el = filter (matches name c) (descendants el)"

definition select_one :: "string \<Rightarrow> cond \<Rightarrow> node \<Rightarrow> node option" where
  "select_one name c el = (case select name c el of [] \<Rightarrow> None | x # _ \<Rightarrow> Some x)"

section \<open>The collaborators\<close>

text \<open>
  A value of the decoded JSON body: a text, or anything else, given by the text that
  \<open>str\<close> makes of it.
\<close>

datatype jval = JStr string | JOther string

fun str_of :: "jval \<Rightarrow> string" where
  "str_of (JStr s) = s"
| "str_of (JOther s) = s"

text \<open>
  A response: what \<open>raise_for_status()\<close> raises, if anything; \<open>json()\<close>, which raises or
  gives an object whose subscription \<open>data[key]\<close> raises or gives a value; and the parse
  of \<open>text\<close>.
\<close>

record response =
  raise_for_status :: "exn option"
  json :: "exn + (string \<Rightarrow> exn + jval)"
  soup :: node

text \<open>
  The world outside: \<open>requests.get\<close> by URL (raising or responding); the two date
  conversions, each taken together with its \<open>strftime("%Y-%m-%d")\<close>:
  \<open>datetime.strptime(v, "%Y-%m-%dT%H:%M:%SZ")\<close> and \<open>datetime.fromisoformat(s)\<close>; and standard
  output, by what \<open>print\<close> of a text raises, if anything (a text that the encoding of
  standard output cannot encode, a closed pipe).
\<close>

record world =
  requests_get :: "string \<Rightarrow> exn + response"
  strptime_date :: "jval \<Rightarrow> exn + string"
  fromisoformat_date :: "string \<Rightarrow> exn + string"
  print_error :: "string \<Rightarrow> exn option"

text \<open>The four shapes of dictionary the program builds; \<open>"error" in d\<close> holds of the first.\<close>

datatype result =
    Failure string
  | Release jval string jval
  | PrimerSet string "string list" string
  | PrimerList "string list" string

section \<open>Package release: \<open>check_pangolin_version\<close>\<close>

definition pangolin_api_url :: string where
  "pangolin_api_url = ''https://api.github.com/repos/cov-lineages/pangolin/releases/latest''"

definition pangolin_releases_url :: string where
  "pangolin_releases_url = ''https://github.com/cov-lineages/pangolin/releases''"

definition pangolin_tags_url :: string where
  "pangolin_tags_url = ''https://github.com/cov-lineages/pangolin/tags''"

definition pangolin_tag_url :: "string \<Rightarrow> string" where
  "pangolin_tag_url version = ''https://github.com/cov-lineages/pangolin/releases/tag/'' @ version"

text \<open>Lines 13-26: the body of the outer \<open>try\<close>.\<close>

definition pangolin_api :: "world \<Rightarrow> exn + result" where
  "pangolin_api w =
     (case requests_get w pangolin_api_url of Inl e \<Rightarrow> Inl e | Inr r \<Rightarrow>
      case raise_for_status r of Some e \<Rightarrow> Inl e | None \<Rightarrow>
      case json r of Inl e \<Rightarrow> Inl e | Inr data \<Rightarrow>
      case data ''tag_name'' of Inl e \<Rightarrow> Inl e | Inr version \<Rightarrow>
      case data ''published_at'' of Inl e \<Rightarrow> Inl e | Inr published_at \<Rightarrow>
      case strptime_date w published_at of Inl e \<Rightarrow> Inl e | Inr published_date \<Rightarrow>
      case data ''html_url'' of Inl e \<Rightarrow> Inl e | Inr url \<Rightarrow>
      Inr (Release version published_date url))"

text \<open>
  The two selector loops (lines 48-52 and 97-100): the first selector with a match
  gives its first match.
\<close>

fun first_selected :: "(string \<times> cond) list \<Rightarrow> node \<Rightarrow> node option" where
  "first_selected [] el = None"
| "first_selected ((name, c) # selectors) el =
     (case select name c el of [] \<Rightarrow> first_selected selectors el | x # _ \<Rightarrow> Some x)"

definition release_selectors :: "(string \<times> cond) list" where
  "release_selectors =
     [(''div'', HasClass [''release-header'']), (''div'', HasClass [''release'']),
      (''div'', HasClass [''Box-row'']), (''div'', AttrEq ''data-hovercard-type'' ''release'')]"

definition version_tag_selectors :: "(string \<times> cond) list" where
  "version_tag_selectors =
     [(''a'', HasClass [''Link--primary'']), (''a'', AttrContains ''href'' ''/releases/tag/''),
      (''a'', AttrEq ''data-hovercard-type'' ''release'')]"

text \<open>Lines 69-73 and 108-112: the date of a row, \<open>Unknown\<close> without a dated time element.\<close>

definition published_date_of :: "world \<Rightarrow> node \<Rightarrow> exn + string" where
  "published_date_of w element =
     (case select_one ''relative-time'' AnyTag element of
        None \<Rightarrow> Inr ''Unknown''
      | Some time_element \<Rightarrow>
          (case attr time_element ''datetime'' of
             None \<Rightarrow> Inr ''Unknown''
           | Some d \<Rightarrow> fromisoformat_date w (replace_Z d)))"

text \<open>Lines 82-92: the scan of all links of the tags page, and the failure after it.\<close>

definition pangolin_link_scan :: "node \<Rightarrow> result" where
  "pangolin_link_scan tags_soup =
     (case filter (\<lambda>link. contains ''/releases/tag/'' (case attr link ''href'' of None \<Rightarrow> [] | Some h \<Rightarrow> h)
                          \<and> contains ''v'' (get_text link))
             (find_all ''a'' AnyTag tags_soup) of
        [] \<Rightarrow> Failure ''Could not find Pangolin version information''
      | link # _ \<Rightarrow>
          Release (JStr (strip (get_text link))) ''Unknown''
            (JStr (pangolin_tag_url (strip (get_text link)))))"

text \<open>Lines 56-92: the tags page, first its first row, then the link scan.\<close>

definition pangolin_tags :: "world \<Rightarrow> exn + result" where
  "pangolin_tags w =
     (case requests_get w pangolin_tags_url of Inl e \<Rightarrow> Inl e | Inr r \<Rightarrow>
      case raise_for_status r of Some e \<Rightarrow> Inl e | None \<Rightarrow>
      case select_one ''div'' (HasClass [''Box-row'']) (soup r) of
        None \<Rightarrow> Inr (pangolin_link_scan (soup r))
      | Some tag_element \<Rightarrow>
          (case select_one ''a'' (AttrContains ''href'' ''/releases/tag/'') tag_element of
             None \<Rightarrow> Inr (pangolin_link_scan (soup r))
           | Some tag_link \<Rightarrow>
               (case published_date_of w tag_element of
                  Inl e \<Rightarrow> Inl e
                | Inr published_date \<Rightarrow>
                    Inr (Release (JStr (strip (get_text tag_link))) published_date
                          (JStr (pangolin_tag_url (strip (get_text tag_link))))))))"

text \<open>Lines 94-118: the version and date of a release element that was found.\<close>

definition pangolin_release :: "world \<Rightarrow> node \<Rightarrow> exn + result" where
  "pangolin_release w release_element =
     (case first_selected version_tag_selectors release_element of
        None \<Rightarrow> Inr (Failure ''Could not find version tag'')
      | Some version_tag \<Rightarrow>
          (case published_date_of w release_element of
             Inl e \<Rightarrow> Inl e
           | Inr published_date \<Rightarrow>
               Inr (Release (JStr (strip (get_text version_tag))) published_date
                     (JStr (pangolin_tag_url (strip (get_text version_tag)))))))"

text \<open>Lines 30-118: the body of the inner \<open>try\<close>.\<close>

definition pangolin_html :: "world \<Rightarrow> exn + result" where
  "pangolin_html w =
     (case requests_get w pangolin_releases_url of Inl e \<Rightarrow> Inl e | Inr r \<Rightarrow>
      case raise_for_status r of Some e \<Rightarrow> Inl e | None \<Rightarrow>
      case first_selected release_selectors (soup r) of
        None \<Rightarrow> pangolin_tags w
      | Some release_element \<Rightarrow> pangolin_release w release_element)"

definition check_pangolin_version :: "world \<Rightarrow> result" where
  "check_pangolin_version w =
     (case pangolin_api w of
        Inr info \<Rightarrow> info
      | Inl e \<Rightarrow>
          (case pangolin_html w of
             Inr info \<Rightarrow> info
           | Inl nested_e \<Rightarrow>
               Failure (''Failed to retrieve Pangolin version: '' @ e @ '', then '' @ nested_e)))"

section \<open>Tool release: \<open>check_artic_version\<close>\<close>

definition artic_api_url :: string where
  "artic_api_url = ''https://api.github.com/repos/artic-network/fieldbioinformatics/releases/latest''"



section \<open>Primer set A: \<open>check_artic_sarscov2_primers\<close>\<close>

definition sarscov2_url :: string where
  "sarscov2_url = ''https://github.com/artic-network/primer-schemes/tree/master/sars-cov-2''"

text \<open>Lines 154-163: the names of directory rows that look like a version.\<close>

fun version_rows :: "node list \<Rightarrow> string list" where
  "version_rows [] = []"
| "version_rows (row # rows) =
     (case find_tag ''svg'' (HasClass [''octicon-file-directory-fill'']) row of
        None \<Rightarrow> version_rows rows
      | Some icon \<Rightarrow>
          (case find_tag ''a'' (HasClass [''js-navigation-open'']) row of
             None \<Rightarrow> version_rows rows
           | Some name_element \<Rightarrow>
               if version_like (strip (get_text name_element))
               then strip (get_text name_element) # version_rows rows
               else version_rows rows))"

text \<open>Lines 167-170: the names of all directory rows.\<close>

fun directory_rows :: "node list \<Rightarrow> string list" where
  "directory_rows [] = []"
| "directory_rows (row # rows) =
     (case find_tag ''svg'' (HasClass [''octicon-file-directory-fill'']) row of
        None \<Rightarrow> directory_rows rows
      | Some icon \<Rightarrow>
          (case find_tag ''a'' (HasClass [''js-navigation-open'']) row of
             None \<Rightarrow> directory_rows rows
           | Some name_element \<Rightarrow> strip (get_text name_element) # directory_rows rows))"

text \<open>Lines 151-186, on the parsed page: an exception of the sort would leave by \<open>Inl\<close>.\<close>

definition sarscov2_primers :: "node \<Rightarrow> exn + result" where
  "sarscov2_primers page =
     (let rows = find_all ''div'' (HasClass [''Box-row'']) page;
          versions = (if version_rows rows = [] then directory_rows rows else version_rows rows)
      in case sort_versions versions of
           Inl e \<Rightarrow> Inl e
         | Inr [] \<Rightarrow> Inr (Failure ''No primer versions found'')
         | Inr (latest_version # others) \<Rightarrow>
             Inr (PrimerSet latest_version (latest_version # others)
                   (sarscov2_url @ ''/'' @ latest_version)))"

definition check_artic_sarscov2_primers :: "world \<Rightarrow> result" where
  "check_artic_sarscov2_primers w =
     (case (case requests_get w sarscov2_url of Inl e \<Rightarrow> Inl e | Inr r \<Rightarrow>
            case raise_for_status r of Some e \<Rightarrow> Inl e | None \<Rightarrow> sarscov2_primers (soup r)) of
        Inr info \<Rightarrow> info
      | Inl e \<Rightarrow> Failure (''Failed to retrieve ARTIC SARS-CoV-2 primers: '' @ e))"

section \<open>Primer set B: \<open>check_artic_ncov2019_primers\<close>\<close>

definition ncov2019_url :: string where
  "ncov2019_url = ''https://github.com/artic-network/primer-schemes/tree/master/nCoV-2019''"

text \<open>Lines 208-214: the texts of the links into the directory, without the three names.\<close>

fun link_names :: "node list \<Rightarrow> string list" where
  "link_names [] = []"
| "link_names (a_tag # a_tags) =
     (case attr a_tag ''href'' of
        None \<Rightarrow> link_names a_tags
      | Some href \<Rightarrow>
          if contains ''/tree/master/nCoV-2019/'' href \<and> strip (get_text a_tag) \<noteq> []
          then (if strip (get_text a_tag) \<noteq> ''..'' \<and> strip (get_text a_tag) \<noteq> ''.''
                   \<and> strip (get_text a_tag) \<noteq> ''nCoV-2019''
                then strip (get_text a_tag) # link_names a_tags
                else link_names a_tags)
          else link_names a_tags)"

text \<open>Lines 217-218: \<^verbatim>\<open>[x for x in versions if not (x in seen or seen.add(x))]\<close>.\<close>

fun unseen :: "string set \<Rightarrow> string list \<Rightarrow> string list" where
  "unseen seen [] = []"
| "unseen seen (x # xs) = (if x \<in> seen then unseen seen xs else x # unseen (insert x seen) xs)"

text \<open>Lines 223-230: rows by role.\<close>

fun role_rows :: "node list \<Rightarrow> string list" where
  "role_rows [] = []"
| "role_rows (row # rows) =
     (case find_tag ''svg'' (HasClass [''octicon-file-directory-fill'']) row of
        None \<Rightarrow> role_rows rows
      | Some svg_icon \<Rightarrow>
          (case find_tag ''a'' AnyTag row of
             None \<Rightarrow> role_rows rows
           | Some name_link \<Rightarrow>
               if strip (get_text name_link) \<noteq> []
               then strip (get_text name_link) # role_rows rows
               else role_rows rows))"

text \<open>Lines 234-239: rows by class.\<close>

fun class_rows :: "node list \<Rightarrow> string list" where
  "class_rows [] = []"
| "class_rows (row # rows) =
     (case find_tag ''svg'' (HasClass [''octicon-file-directory-fill'', ''directory'']) row of
        None \<Rightarrow> class_rows rows
      | Some icon \<Rightarrow>
          (case find_tag ''a'' AnyTag row of
             None \<Rightarrow> class_rows rows
           | Some name_link \<Rightarrow> strip (get_text name_link) # class_rows rows))"

text \<open>The three ways of collecting names, each used when the one before found nothing.\<close>

definition ncov2019_links :: "node \<Rightarrow> string list" where
  "ncov2019_links page = unseen {} (link_names (find_all ''a'' AnyTag page))"

definition ncov2019_role_rows :: "node \<Rightarrow> string list" where
  "ncov2019_role_rows page = role_rows (find_all ''div'' (AttrEq ''role'' ''row'') page)"

definition ncov2019_class_rows :: "node \<Rightarrow> string list" where
  "ncov2019_class_rows page =
     class_rows (find_all ''div'' (HasClass [''Box-row'', ''js-navigation-item'']) page)"

definition ncov2019_versions :: "node \<Rightarrow> string list" where
  "ncov2019_versions page =
     (if ncov2019_links page \<noteq> [] then ncov2019_links page
      else if ncov2019_role_rows page \<noteq> [] then ncov2019_role_rows page
      else ncov2019_class_rows page)"

text \<open>Lines 241-257: the inner \<open>try\<close> keeps the list as it is when the sort raises.\<close>

definition ncov2019_primers :: "node \<Rightarrow> result" where
  "ncov2019_primers page =
     (if ncov2019_versions page = []
      then Failure ''Could not detect ARTIC primer versions from the GitHub page''
      else PrimerList
             (case sort_versions (ncov2019_versions page) of
                Inl e \<Rightarrow> ncov2019_versions page
              | Inr sorted_versions \<Rightarrow> sorted_versions)
             ncov2019_url)"

definition check_artic_ncov2019_primers :: "world \<Rightarrow> result" where
  "check_artic_ncov2019_primers w =
     (case requests_get w ncov2019_url of
        Inl e \<Rightarrow> Failure (''Failed to retrieve ARTIC nCoV-2019 primers: '' @ e)
      | Inr r \<Rightarrow>
          (case raise_for_status r of
             Some e \<Rightarrow> Failure (''Failed to retrieve ARTIC nCoV-2019 primers: '' @ e)
           | None \<Rightarrow> ncov2019_primers (soup r)))"

section \<open>The report: \<open>main\<close>\<close>











section \<open>Notions used in the statements\<close>

text \<open>The key of a label as a value; the sort key never raises, as is proved below.\<close>

definition key_of :: "string \<Rightarrow> pyfloat list" where
  "key_of x = (case version_key x of Inl e \<Rightarrow> [] | Inr k \<Rightarrow> k)"

text \<open>The two forms of a match of the number pattern: digits, or digits, a dot, digits.\<close>

definition number_token :: "string \<Rightarrow> bool" where
  "number_token n = ((n \<noteq> [] \<and> list_all is_d n) \<or>
     (\<exists>a b. n = a @ CHR ''.'' # b \<and> a \<noteq> [] \<and> b \<noteq> [] \<and> list_all is_d a \<and> list_all is_d b))"

section \<open>Example pages and worlds\<close>

text \<open>Pages and worlds on which the statements below are evaluated.\<close>

definition document :: "node list \<Rightarrow> node" where
  "document nodes = Element ''[document]'' [] [] nodes"

definition page_response :: "node \<Rightarrow> response" where
  "page_response page = \<lparr>raise_for_status = None, json = Inl ''Expecting value'', soup = page\<rparr>"


text \<open>
  A world that answers the listed URLs and refuses every other connection, and whose
  standard output takes every text.
\<close>

definition serving :: "(string \<times> response) list \<Rightarrow> world" where
  "serving answers =
     \<lparr>requests_get = (\<lambda>url. case map_of answers url of
                                None \<Rightarrow> Inl ''connection refused''
                              | Some r \<Rightarrow> Inr r),
      strptime_date = (\<lambda>v. Inr (take 10 (str_of v))),
      fromisoformat_date = (\<lambda>s. Inr (take 10 s)),
      print_error = (\<lambda>text. None)\<rparr>"

definition link :: "string \<Rightarrow> string \<Rightarrow> node" where
  "link href label = Element ''a'' [] [(''href'', href)] [NavString label]"

definition directory_icon :: node where
  "directory_icon = Element ''svg'' [''octicon'', ''octicon-file-directory-fill''] [] []"

text \<open>A row of a directory listing, as primer set A looks for it.\<close>

definition directory_row :: "string \<Rightarrow> node" where
  "directory_row name =
     Element ''div'' [''Box-row''] []
       [directory_icon,
        Element ''a'' [''js-navigation-open''] [(''href'', ''/sars-cov-2/'' @ name)]
          [NavString name]]"


definition listing_plain :: node where
  "listing_plain = document [directory_row ''alpha'', directory_row ''beta'']"

text \<open>A listing whose one row has the directory icon and a link without the navigation class.\<close>

definition icon_row_plain_link :: node where
  "icon_row_plain_link =
     Element ''div'' [''Box-row''] [] [directory_icon, link ''/sars-cov-2/V1'' ''V1'']"

definition listing_plain_link :: node where
  "listing_plain_link = document [icon_row_plain_link]"

text \<open>A releases page with a release header that holds no link, and a tags page with one tag.\<close>

definition releases_header_only :: node where
  "releases_header_only = document [Element ''div'' [''release-header''] [] [NavString ''Releases'']]"

definition tags_v4_3 :: node where
  "tags_v4_3 =
     document [Element ''div'' [''Box-row''] []
       [link ''/cov-lineages/pangolin/releases/tag/v4.3'' '' v4.3 '']]"

definition world_header_without_tag :: world where
  "world_header_without_tag =
     serving [(pangolin_releases_url, page_response releases_header_only),
              (pangolin_tags_url, page_response tags_v4_3)]"

definition world_tags_only :: world where
  "world_tags_only =
     serving [(pangolin_releases_url, page_response (document [])),
              (pangolin_tags_url, page_response tags_v4_3)]"

definition world_nothing_found :: world where
  "world_nothing_found =
     serving [(pangolin_releases_url, page_response (document [])),
              (pangolin_tags_url, page_response (document []))]"

definition world_offline :: world where
  "world_offline = serving []"



text \<open>Pages for primer set B: links with a repeat and the parent link; rows by role; rows by class.\<close>

definition page_links :: node where
  "page_links =
     document [link ''/artic-network/primer-schemes/tree/master/nCoV-2019/..'' ''..'',
               link ''/artic-network/primer-schemes/tree/master/nCoV-2019/V1'' ''V1'',
               link ''/artic-network/primer-schemes/tree/master/nCoV-2019/V2'' ''V2'',
               link ''/artic-network/primer-schemes/tree/master/nCoV-2019/V1'' ''V1'']"

definition role_row :: "string \<Rightarrow> node" where
  "role_row name =
     Element ''div'' [] [(''role'', ''row'')] [directory_icon, link ''/somewhere'' name]"

definition page_role_rows :: node where
  "page_role_rows = document [role_row ''..'', role_row ''V3'', role_row ''..'']"

definition class_row :: "string \<Rightarrow> node" where
  "class_row name =
     Element ''div'' [''js-navigation-item''] [] [directory_icon, link ''/somewhere'' name]"

definition page_class_rows :: node where
  "page_class_rows = document [class_row ''nCoV-2019'', class_row ''V3'', class_row ''nCoV-2019'']"


text \<open>What the HTML strategies of the package-release pipeline can return.\<close>

definition html_outcome :: "result \<Rightarrow> bool" where
  "html_outcome info =
     (case info of
        Release v d u \<Rightarrow> True
      | Failure msg \<Rightarrow> msg = ''Could not find version tag''
                        \<or> msg = ''Could not find Pangolin version information''
      | PrimerSet l vs u \<Rightarrow> False
      | PrimerList vs u \<Rightarrow> False)"

section \<open>Number tokens, keys and the sort\<close>

lemma list_all_takeWhile: "list_all P (takeWhile P xs)"
  by (induction xs) auto

lemma findall_numbers_tokens: "n \<in> set (findall_numbers x) \<Longrightarrow> number_token n"
proof (induction x arbitrary: n rule: findall_numbers.induct)
  case 1
  then show ?case by simp
next
  case (2 c cs)
  show ?case
  proof (cases "is_d c")
    case False
    with 2 show ?thesis by simp
  next
    case True
    note c = True
    have run: "list_all is_d (c # takeWhile is_d cs)"
      using c by (simp add: list_all_takeWhile)
    show ?thesis
    proof (cases "dropWhile is_d cs")
      case Nil
      with 2 c run show ?thesis by (auto simp: number_token_def)
    next
      case (Cons d ds)
      note dd = Cons
      show ?thesis
      proof (cases ds)
        case Nil
        with 2 c run dd show ?thesis by (auto simp: number_token_def)
      next
        case (Cons f rest)
        show ?thesis
        proof (cases "d = CHR ''.'' \<and> is_d f")
          case True
          have "number_token ((c # takeWhile is_d cs) @ d # f # takeWhile is_d rest)"
            unfolding number_token_def using True run
            by (intro disjI2 exI [of _ "c # takeWhile is_d cs"] exI [of _ "f # takeWhile is_d rest"])
               (simp add: list_all_takeWhile)
          with 2 c dd Cons True show ?thesis by auto
        next
          case False
          with 2 c dd Cons run show ?thesis by (auto simp: number_token_def)
        qed
      qed
    qed
  qed
qed

lemma not_is_d_dot: "\<not> is_d CHR ''.''"
  by (simp add: is_d_def)

lemma replace_dot_once_digits: "list_all is_d a \<Longrightarrow> replace_dot_once a = a"
  by (induction a) (auto simp: not_is_d_dot)

lemma replace_dot_once_decimal: "list_all is_d a \<Longrightarrow> replace_dot_once (a @ CHR ''.'' # b) = a @ b"
  by (induction a) (auto simp: not_is_d_dot)

lemma dropWhile_all: "list_all P a \<Longrightarrow> dropWhile P a = []"
  by (induction a) auto

lemma takeWhile_decimal: "list_all is_d a \<Longrightarrow> takeWhile is_d (a @ CHR ''.'' # b) = a"
  by (induction a) (auto simp: not_is_d_dot)

lemma dropWhile_decimal: "list_all is_d a \<Longrightarrow> dropWhile is_d (a @ CHR ''.'' # b) = CHR ''.'' # b"
  by (induction a) (auto simp: not_is_d_dot)

lemma number_token_isdigit: "number_token n \<Longrightarrow> isdigit (replace_dot_once n)"
  unfolding number_token_def isdigit_def
  by (auto simp: replace_dot_once_digits replace_dot_once_decimal isdigit_char_def list_all_iff)

lemma number_token_float: "number_token n \<Longrightarrow> \<exists>v. py_float n = Inr v"
  unfolding number_token_def py_float_def
  by (auto simp: dropWhile_all takeWhile_decimal dropWhile_decimal)

lemma collect_total: "(\<And>x. x \<in> set xs \<Longrightarrow> \<exists>y. f x = Inr y) \<Longrightarrow> \<exists>ys. collect f xs = Inr ys"
proof (induction xs)
  case Nil
  then show ?case by simp
next
  case (Cons a xs)
  then obtain y where "f a = Inr y" by auto
  moreover from Cons obtain ys where "collect f xs = Inr ys" by auto
  ultimately show ?case by simp
qed

lemma collect_map: "(\<And>x. x \<in> set xs \<Longrightarrow> f x = Inr (g x)) \<Longrightarrow> collect f xs = Inr (map g xs)"
  by (induction xs) auto

lemma collect_Inr_map: "collect f xs = Inr ys \<Longrightarrow> map f xs = map Inr ys"
  by (induction xs arbitrary: ys) (auto split: sum.splits)

lemma version_key_total: "\<exists>k. version_key x = Inr k"
  unfolding version_key_def
  by (rule collect_total) (use findall_numbers_tokens number_token_isdigit number_token_float in auto)

lemma version_key_key_of: "version_key x = Inr (key_of x)"
  using version_key_total [of x] by (auto simp: key_of_def)

lemma collect_guarded:
  "\<forall>n\<in>set ts. number_token n \<Longrightarrow>
   collect (\<lambda>n. if isdigit (replace_dot_once n) then py_float n else Inr (Finite 0)) ts
     = collect py_float ts"
  by (induction ts) (auto simp: number_token_isdigit split: sum.splits)

lemma version_key_floats: "version_key x = collect py_float (findall_numbers x)"
  unfolding version_key_def
  by (rule collect_guarded) (simp add: findall_numbers_tokens)

lemma insort_key_decorate:
  "insort_key fst (k a, a) (map (\<lambda>y. (k y, y)) ys) = map (\<lambda>y. (k y, y)) (insort_key k a ys)"
  by (induction ys) auto

lemma sort_key_decorate:
  "sort_key fst (map (\<lambda>y. (k y, y)) ys) = map (\<lambda>y. (k y, y)) (sort_key k ys)"
  by (induction ys) (auto simp: insort_key_decorate)

lemma sort_reverse_total_key:
  assumes "\<And>x. key x = Inr (k x)"
  shows "sort_reverse key xs = Inr (rev (sort_key k (rev xs)))"
proof -
  have c: "collect key xs = Inr (map k xs)"
    by (rule collect_map) (rule assms)
  have z: "zip (map k xs) xs = map (\<lambda>y. (k y, y)) xs"
    by (induction xs) auto
  have "sort_key fst (rev (map (\<lambda>y. (k y, y)) xs)) = map (\<lambda>y. (k y, y)) (sort_key k (rev xs))"
    by (simp only: rev_map sort_key_decorate)
  then have "map snd (rev (sort_key fst (rev (zip (map k xs) xs)))) = rev (sort_key k (rev xs))"
    by (simp add: z rev_map o_def)
  with c show ?thesis
    by (simp add: sort_reverse_def)
qed

lemma sort_versions_eq: "sort_versions xs = Inr (rev (sort_key key_of (rev xs)))"
  unfolding sort_versions_def by (rule sort_reverse_total_key) (rule version_key_key_of)

lemma floor_numeral_div: "\<lfloor>(numeral a :: rat) / numeral b\<rfloor> = numeral a div numeral b"
  using floor_divide_of_int_eq [of "numeral a" "numeral b", where ?'a = rat] by simp

lemma binary64_5_3: "binary64 53 1 = Finite (5967269506265907 / 1125899906842624)"
  by (simp add: binary64_def floor_log2_def bit_length.simps pow2_def round_half_even_def Let_def
      floor_numeral_div)

lemma binary64_small:
  "binary64 0 0 = Finite 0" "binary64 1 0 = Finite 1" "binary64 2 0 = Finite 2"
  "binary64 5 0 = Finite 5" "binary64 10 (Suc 0) = Finite 1"
  by (simp_all add: binary64_def floor_log2_def bit_length.simps pow2_def round_half_even_def Let_def)

lemma tokens_V5_3: "findall_numbers ''V5.3'' = [''5.3'']"
  by (simp add: is_d_def)

lemma key_V5_3: "version_key ''V5.3'' = Inr [Finite (5967269506265907 / 1125899906842624)]"
  by (simp add: version_key_def tokens_V5_3 isdigit_def isdigit_char_def is_d_def py_float_def
      digits_value_def digit_value_def binary64_5_3 [unfolded One_nat_def])

lemma key_small:
  "version_key ''V1'' = Inr [Finite 1]" "version_key ''V2'' = Inr [Finite 2]"
  "version_key ''5'' = Inr [Finite 5]" "version_key ''latest'' = Inr []"
  by (simp_all add: version_key_def isdigit_def isdigit_char_def is_d_def py_float_def
      digits_value_def digit_value_def binary64_small)


lemma findall_numbers_Nil_iff: "findall_numbers x = [] \<longleftrightarrow> \<not> list_ex is_d x"
  by (induction x rule: findall_numbers.induct) (auto split: list.splits)

lemma collect_length: "collect f xs = Inr ys \<Longrightarrow> length ys = length xs"
  by (induction xs arbitrary: ys) (auto split: sum.splits)

lemma key_of_Nil_iff: "key_of x = [] \<longleftrightarrow> \<not> list_ex is_d x"
proof -
  have "collect py_float (findall_numbers x) = Inr (key_of x)"
    using version_key_key_of [of x] by (simp add: version_key_floats)
  then have "length (key_of x) = length (findall_numbers x)"
    by (rule collect_length)
  then have "key_of x = [] \<longleftrightarrow> findall_numbers x = []"
    by (metis length_0_conv)
  then show ?thesis
    by (simp add: findall_numbers_Nil_iff)
qed

lemma descending_sorted:
  "sorted_wrt (\<lambda>a b. k b \<le> k a) (rev (sort_key k (rev xs)))"
proof -
  have "sorted (map k (sort_key k (rev xs)))"
    by (rule sorted_sort_key)
  then show ?thesis
    by (simp add: sorted_wrt_rev sorted_map)
qed

lemma descending_stable:
  "filter (\<lambda>v. k v = c) (rev (sort_key k (rev xs))) = filter (\<lambda>v. k v = c) xs"
proof -
  have "filter (\<lambda>v. k v = c) (rev (sort_key k (rev xs))) = rev (filter (\<lambda>v. k v = c) (sort_key k (rev xs)))"
    by (simp add: rev_filter)
  also have "\<dots> = rev (filter (\<lambda>v. k v = c) (rev xs))"
    by (simp only: sort_key_stable)
  also have "\<dots> = filter (\<lambda>v. k v = c) xs"
    by (simp add: rev_filter)
  finally show ?thesis .
qed

lemma descending_least_last:
  fixes k :: "'a \<Rightarrow> 'b::linorder list"
  shows "sorted_wrt (\<lambda>a b. k b \<le> k a) l \<Longrightarrow>
    l = filter (\<lambda>v. k v \<noteq> []) l @ filter (\<lambda>v. k v = []) l"
proof (induction l)
  case Nil
  then show ?case by simp
next
  case (Cons a l)
  show ?case
  proof (cases "k a = []")
    case False
    with Cons show ?thesis by simp
  next
    case True
    with Cons.prems have "\<forall>b\<in>set l. k b = []"
      by auto
    then have "filter (\<lambda>v. k v \<noteq> []) l = []" "filter (\<lambda>v. k v = []) l = l"
      by (simp_all add: filter_empty_conv filter_id_conv)
    with True show ?thesis by simp
  qed
qed

lemma key_of_examples:
  "key_of ''V1'' = [Finite 1]" "key_of ''V2'' = [Finite 2]"
  "key_of ''V5.3'' = [Finite (5967269506265907 / 1125899906842624)]"
  by (simp_all add: key_of_def key_small key_V5_3)

section \<open>The shapes of the results\<close>

lemma html_outcome_Release: "html_outcome (Release v d u)"
  by (simp add: html_outcome_def)

lemma html_outcome_link_scan: "html_outcome (pangolin_link_scan page)"
  unfolding pangolin_link_scan_def by (simp add: html_outcome_def split: list.splits)

lemma pangolin_tags_outcome: "pangolin_tags w = Inr info \<Longrightarrow> html_outcome info"
  unfolding pangolin_tags_def
  by (auto simp: html_outcome_Release html_outcome_link_scan split: sum.splits option.splits)

lemma pangolin_release_outcome: "pangolin_release w element = Inr info \<Longrightarrow> html_outcome info"
  unfolding pangolin_release_def
  by (auto simp: html_outcome_def split: sum.splits option.splits)

lemma pangolin_html_outcome: "pangolin_html w = Inr info \<Longrightarrow> html_outcome info"
  unfolding pangolin_html_def
  by (auto simp: pangolin_tags_outcome pangolin_release_outcome split: sum.splits option.splits)





section \<open>Evaluation on the example worlds\<close>

lemmas url_defs = pangolin_api_url_def pangolin_releases_url_def pangolin_tags_url_def
  artic_api_url_def sarscov2_url_def ncov2019_url_def

lemmas query_defs = find_all_def find_tag_def select_def select_one_def document_def
  link_def directory_icon_def

lemma strip_examples:
  "strip ''V1'' = ''V1''" "strip ''V2'' = ''V2''" "strip ''V3'' = ''V3''" "strip '' v4.3 '' = ''v4.3''"
  "strip ''..'' = ''..''" "strip ''nCoV-2019'' = ''nCoV-2019''"
  "strip ''alpha'' = ''alpha''" "strip ''beta'' = ''beta''"
  by (simp_all add: strip_def is_space_def)

lemma pangolin_api_refused:
  "map_of answers pangolin_api_url = None \<Longrightarrow> pangolin_api (serving answers) = Inl ''connection refused''"
  by (simp add: pangolin_api_def serving_def)

lemma header_without_tag_eval:
  "check_pangolin_version world_header_without_tag = Failure ''Could not find version tag''"
  by (simp add: check_pangolin_version_def pangolin_api_def pangolin_html_def pangolin_release_def
      world_header_without_tag_def serving_def url_defs page_response_def releases_header_only_def
      release_selectors_def version_tag_selectors_def query_defs)

lemma tags_v4_3_eval:
  "pangolin_tags world_header_without_tag
     = Inr (Release (JStr ''v4.3'') ''Unknown''
             (JStr ''https://github.com/cov-lineages/pangolin/releases/tag/v4.3''))"
  "pangolin_tags world_tags_only
     = Inr (Release (JStr ''v4.3'') ''Unknown''
             (JStr ''https://github.com/cov-lineages/pangolin/releases/tag/v4.3''))"
  by (simp_all add: pangolin_tags_def world_header_without_tag_def world_tags_only_def serving_def
      url_defs page_response_def tags_v4_3_def query_defs published_date_of_def
      pangolin_tag_url_def strip_examples)

section \<open>Directory rows\<close>

lemma version_rows_filter: "version_rows rows = filter version_like (directory_rows rows)"
  by (induction rows) (auto split: option.splits)

lemma sort_versions_mset: "sort_versions xs = Inr s \<Longrightarrow> mset s = mset xs"
  by (auto simp: sort_versions_eq)

lemma sort_versions_Nil_iff: "sort_versions xs = Inr s \<Longrightarrow> s = [] \<longleftrightarrow> xs = []"
  using sort_versions_mset [of xs s] by (metis mset_zero_iff)

lemma sort_V1_V2:
  "sort_versions [''V1'', ''V2''] = Inr [''V2'', ''V1'']"
  "sort_versions [''V2'', ''V1''] = Inr [''V2'', ''V1'']"
  by (simp_all add: sort_versions_eq key_of_examples less_pyfloat_def)

lemma sarscov2_fetched:
  "requests_get w sarscov2_url = Inr r \<Longrightarrow> raise_for_status r = None \<Longrightarrow>
   check_artic_sarscov2_primers w
     = (case sarscov2_primers (soup r) of
          Inr info \<Rightarrow> info
        | Inl e \<Rightarrow> Failure (''Failed to retrieve ARTIC SARS-CoV-2 primers: '' @ e))"
  by (simp add: check_artic_sarscov2_primers_def)

lemma sarscov2_primers_sorted:
  assumes "names = directory_rows (find_all ''div'' (HasClass [''Box-row'']) page)"
    and "versions = (if filter version_like names = [] then names else filter version_like names)"
    and "sort_versions versions = Inr sorted_versions"
  shows "sarscov2_primers page
           = Inr (case sorted_versions of
                    [] \<Rightarrow> Failure ''No primer versions found''
                  | latest # others \<Rightarrow>
                      PrimerSet latest sorted_versions (sarscov2_url @ ''/'' @ latest))"
proof -
  have "sarscov2_primers page
          = (case sort_versions versions of
               Inl e \<Rightarrow> Inl e
             | Inr [] \<Rightarrow> Inr (Failure ''No primer versions found'')
             | Inr (latest_version # others) \<Rightarrow>
                 Inr (PrimerSet latest_version (latest_version # others)
                       (sarscov2_url @ ''/'' @ latest_version)))"
    unfolding sarscov2_primers_def Let_def version_rows_filter assms(1) [symmetric]
      assms(2) [symmetric] by (rule refl)
  then show ?thesis
    using assms(3) by (simp split: list.splits)
qed

lemma directory_rows_map_filter:
  "directory_rows rows
     = List.map_filter
         (\<lambda>row. case find_tag ''svg'' (HasClass [''octicon-file-directory-fill'']) row of
                  None \<Rightarrow> None
                | Some icon \<Rightarrow>
                    map_option (\<lambda>name_element. strip (get_text name_element))
                      (find_tag ''a'' (HasClass [''js-navigation-open'']) row))
         rows"
  by (induction rows) (auto simp: List.map_filter_simps split: option.splits)

lemma sort_plain: "sort_versions [''alpha'', ''beta''] = Inr [''alpha'', ''beta'']"
proof -
  have "key_of ''alpha'' = []" "key_of ''beta'' = []"
    by (simp_all add: key_of_def version_key_def is_d_def)
  then show ?thesis
    by (simp add: sort_versions_eq)
qed

lemma plain_names:
  "directory_rows (find_all ''div'' (HasClass [''Box-row'']) listing_plain) = [''alpha'', ''beta'']"
  by (simp add: listing_plain_def directory_row_def query_defs strip_examples)

lemma plain_result:
  "check_artic_sarscov2_primers (serving [(sarscov2_url, page_response listing_plain)])
     = PrimerSet ''alpha'' [''alpha'', ''beta''] (sarscov2_url @ ''/alpha'')"
proof -
  have "sarscov2_primers listing_plain
          = Inr (PrimerSet ''alpha'' [''alpha'', ''beta''] (sarscov2_url @ ''/alpha''))"
    using sarscov2_primers_sorted [OF plain_names [symmetric] refl, of "[''alpha'', ''beta'']"]
    by (simp add: is_d_def sort_plain)
  then show ?thesis
    by (simp add: check_artic_sarscov2_primers_def serving_def page_response_def)
qed

lemma plain_link_result:
  "find_all ''div'' (HasClass [''Box-row'']) listing_plain_link = [icon_row_plain_link]"
  "find_tag ''svg'' (HasClass [''octicon-file-directory-fill'']) icon_row_plain_link
     = Some directory_icon"
  "check_artic_sarscov2_primers (serving [(sarscov2_url, page_response listing_plain_link)])
     = Failure ''No primer versions found''"
proof -
  show r: "find_all ''div'' (HasClass [''Box-row'']) listing_plain_link = [icon_row_plain_link]"
    by (simp add: listing_plain_link_def icon_row_plain_link_def query_defs)
  show "find_tag ''svg'' (HasClass [''octicon-file-directory-fill'']) icon_row_plain_link
          = Some directory_icon"
    by (simp add: icon_row_plain_link_def query_defs)
  have n: "directory_rows (find_all ''div'' (HasClass [''Box-row'']) listing_plain_link) = []"
    unfolding r by (simp add: icon_row_plain_link_def query_defs)
  have s: "sort_versions [] = Inr []"
    by (simp add: sort_versions_eq)
  have "sarscov2_primers listing_plain_link = Inr (Failure ''No primer versions found'')"
    using sarscov2_primers_sorted [OF n [symmetric] refl, of "[]"] by (simp add: s)
  then show "check_artic_sarscov2_primers (serving [(sarscov2_url, page_response listing_plain_link)])
               = Failure ''No primer versions found''"
    by (simp add: check_artic_sarscov2_primers_def serving_def page_response_def)
qed

section \<open>Primer set B: the three ways of collecting names\<close>

lemma unseen_set: "set (unseen seen xs) = set xs - seen"
  by (induction xs arbitrary: seen) auto

lemma unseen_distinct: "distinct (unseen seen xs)"
  by (induction xs arbitrary: seen) (auto simp: unseen_set)

lemma link_names_excluded:
  "''..'' \<notin> set (link_names a_tags)" "''.'' \<notin> set (link_names a_tags)"
  "''nCoV-2019'' \<notin> set (link_names a_tags)"
  by (induction a_tags) (auto split: option.splits)

lemma ncov2019_links_clean:
  "distinct (ncov2019_links page)" "''..'' \<notin> set (ncov2019_links page)"
  "''.'' \<notin> set (ncov2019_links page)" "''nCoV-2019'' \<notin> set (ncov2019_links page)"
  by (simp_all add: ncov2019_links_def unseen_distinct unseen_set link_names_excluded)

lemma ncov2019_primers_sorted:
  "ncov2019_versions page \<noteq> [] \<Longrightarrow>
   \<exists>vs. ncov2019_primers page = PrimerList vs ncov2019_url \<and> mset vs = mset (ncov2019_versions page)"
  by (simp add: ncov2019_primers_def sort_versions_eq)

lemma ncov2019_examples:
  "ncov2019_links page_links = [''V1'', ''V2'']"
  "ncov2019_links page_role_rows = []"
  "ncov2019_role_rows page_role_rows = [''..'', ''V3'', ''..'']"
  "ncov2019_links page_class_rows = []"
  "ncov2019_role_rows page_class_rows = []"
  "ncov2019_class_rows page_class_rows = [''nCoV-2019'', ''V3'', ''nCoV-2019'']"
  by (simp_all add: ncov2019_links_def ncov2019_role_rows_def ncov2019_class_rows_def
      page_links_def page_role_rows_def page_class_rows_def role_row_def class_row_def
      query_defs strip_examples)

lemma key_of_primer_names:
  "key_of ''..'' = []" "key_of ''V3'' = [Finite 3]" "key_of ''nCoV-2019'' = [Finite 2019]"
  by (simp_all add: key_of_def version_key_def isdigit_def isdigit_char_def is_d_def
      py_float_def digits_value_def digit_value_def binary64_def floor_log2_def
      bit_length.simps pow2_def round_half_even_def Let_def)

lemma ncov2019_primers_examples:
  "ncov2019_primers page_links = PrimerList [''V2'', ''V1''] ncov2019_url"
  "ncov2019_primers page_role_rows = PrimerList [''V3'', ''..'', ''..''] ncov2019_url"
  "ncov2019_primers page_class_rows = PrimerList [''nCoV-2019'', ''nCoV-2019'', ''V3''] ncov2019_url"
  by (simp_all add: ncov2019_primers_def ncov2019_versions_def ncov2019_examples sort_versions_eq
      key_of_examples key_of_primer_names less_pyfloat_def)

lemma ncov2019_fetched:
  "check_artic_ncov2019_primers (serving [(ncov2019_url, page_response page)]) = ncov2019_primers page"
  by (simp add: check_artic_ncov2019_primers_def serving_def page_response_def)

section \<open>The pipelines and the report\<close>




























section \<open>The sort key and the order of labels\<close>

text \<open>
  C9.  Every match of the number pattern passes the \<open>isdigit\<close> guard after one dot is
  removed, so the else branch of the key is never taken, and \<open>float\<close> does not raise on
  it; the sort of version labels therefore never raises, for any list.
\<close>

theorem sort_key_never_raises:
  "(\<forall>x. \<forall>n\<in>set (findall_numbers x). isdigit (replace_dot_once n) \<and> (\<exists>v. py_float n = Inr v))
   \<and> (\<forall>x. version_key x = collect py_float (findall_numbers x))
   \<and> (\<forall>versions. \<exists>sorted_versions. sort_versions versions = Inr sorted_versions)"
  using findall_numbers_tokens number_token_isdigit number_token_float version_key_floats
    sort_versions_eq by blast

theorem sort_key_never_raises_witness:
  "''5.3'' \<in> set (findall_numbers ''V5.3'') \<and> isdigit (replace_dot_once ''5.3'')
   \<and> (\<exists>v. py_float ''5.3'' = Inr v)
   \<and> (\<exists>sorted_versions. sort_versions [''V1'', ''V5.3''] = Inr sorted_versions)"
proof -
  have m: "''5.3'' \<in> set (findall_numbers ''V5.3'')"
    by (simp add: is_d_def)
  with sort_key_never_raises show ?thesis
    by blast
qed

text \<open>
  C2, as the code has it.  The key of a label is the sequence of the floats of the
  matches of the number pattern, left to right, and a match of the form digits, dot,
  digits is one number: the key of \<open>V5.3\<close> is the single float 5.3 (the binary64 value
  nearest to it), and the key of \<open>5\<close> is the single float 5.
\<close>

theorem sort_key_of_matches:
  "(\<exists>key. version_key x = Inr key \<and> map py_float (findall_numbers x) = map Inr key)
   \<and> findall_numbers ''V5.3'' = [''5.3'']
   \<and> version_key ''V5.3'' = Inr [Finite (5967269506265907 / 1125899906842624)]
   \<and> version_key ''5'' = Inr [Finite 5]"
proof -
  obtain key where k: "version_key x = Inr key"
    using version_key_total by blast
  then have "map py_float (findall_numbers x) = map Inr key"
    by (simp add: version_key_floats collect_Inr_map)
  with k show ?thesis
    by (simp add: key_V5_3 key_small is_d_def)
qed

theorem sort_key_of_matches_witness:
  "\<exists>key. version_key ''V1.2.3'' = Inr key \<and> map py_float (findall_numbers ''V1.2.3'') = map Inr key"
  using sort_key_of_matches [of "''V1.2.3''"] by blast

text \<open>The key of \<open>V5.3\<close> does not have the two components 5 and 3.\<close>

theorem sort_key_V5_3_counterexample:
  "version_key ''V5.3'' \<noteq> Inr [Finite 5, Finite 3]"
  by (simp add: key_V5_3)

text \<open>
  C3, as the code has it.  A label without a digit has the empty key, not a key with
  one zero; the empty key is the least, so in the sorted list the labels with a digit
  come first and the labels without one follow them, in their input order.
\<close>

theorem no_digits_empty_key:
  "(\<not> list_ex is_d x \<longrightarrow> version_key x = Inr [])
   \<and> (\<exists>sorted_versions. sort_versions versions = Inr sorted_versions
        \<and> sorted_versions = filter (list_ex is_d) sorted_versions
                               @ filter (\<lambda>v. \<not> list_ex is_d v) versions)"
proof -
  let ?out = "rev (sort_key key_of (rev versions))"
  have "?out = filter (\<lambda>v. key_of v \<noteq> []) ?out @ filter (\<lambda>v. key_of v = []) ?out"
    by (rule descending_least_last) (rule descending_sorted)
  also have "filter (\<lambda>v. key_of v = []) ?out = filter (\<lambda>v. key_of v = []) versions"
    by (rule descending_stable)
  finally have "?out = filter (list_ex is_d) ?out @ filter (\<lambda>v. \<not> list_ex is_d v) versions"
    by (simp add: key_of_Nil_iff)
  moreover have "\<not> list_ex is_d x \<longrightarrow> version_key x = Inr []"
    using version_key_key_of [of x] key_of_Nil_iff [of x] by simp
  ultimately show ?thesis
    using sort_versions_eq [of versions] by simp
qed

theorem no_digits_empty_key_witness:
  "\<not> list_ex is_d ''latest'' \<and> version_key ''latest'' = Inr []
   \<and> sort_versions [''latest'', ''V0'', ''main'', ''V2''] = Inr [''V2'', ''V0'', ''latest'', ''main'']"
proof -
  have d: "\<not> list_ex is_d ''latest''"
    by (simp add: is_d_def)
  obtain s where s: "sort_versions [''latest'', ''V0'', ''main'', ''V2''] = Inr s"
    "s = filter (list_ex is_d) s @ filter (\<lambda>v. \<not> list_ex is_d v) [''latest'', ''V0'', ''main'', ''V2'']"
    using no_digits_empty_key [of "''latest''" "[''latest'', ''V0'', ''main'', ''V2'']"] by blast
  have k: "key_of ''latest'' = []" "key_of ''main'' = []" "key_of ''V0'' = [Finite 0]"
    "key_of ''V2'' = [Finite 2]"
    by (simp_all add: key_of_def version_key_def isdigit_def isdigit_char_def is_d_def
        py_float_def digits_value_def digit_value_def binary64_small)
  have "s = [''V2'', ''V0'', ''latest'', ''main'']"
    using s(1) by (simp add: sort_versions_eq k less_pyfloat_def)
  with d s no_digits_empty_key [of "''latest''" "[]"] show ?thesis
    by simp
qed

text \<open>The key of \<open>latest\<close> is not a single zero.\<close>

theorem sort_key_latest_counterexample:
  "version_key ''latest'' \<noteq> Inr [Finite 0]"
  by (simp add: key_small)

text \<open>
  C6.  The sort of version labels is a stable sort by key in descending order: it
  returns a rearrangement of its input in which a label never comes before one of
  greater key, and labels of equal key keep their input order.  The labels \<open>V1\<close>,
  \<open>V5.3\<close>, \<open>V2\<close> come out as \<open>V5.3\<close>, \<open>V2\<close>, \<open>V1\<close>.
\<close>

theorem order_descending_stable:
  "(\<exists>sorted_versions. sort_versions versions = Inr sorted_versions
      \<and> mset sorted_versions = mset versions
      \<and> sorted_wrt (\<lambda>a b. key_of b \<le> key_of a) sorted_versions
      \<and> (\<forall>k. filter (\<lambda>v. key_of v = k) sorted_versions = filter (\<lambda>v. key_of v = k) versions))
   \<and> version_key v = Inr (key_of v)
   \<and> sort_versions [''V1'', ''V5.3'', ''V2''] = Inr [''V5.3'', ''V2'', ''V1'']"
proof -
  have "mset (rev (sort_key key_of (rev versions))) = mset versions"
    by simp
  moreover have "sort_versions [''V1'', ''V5.3'', ''V2''] = Inr [''V5.3'', ''V2'', ''V1'']"
    by (simp add: sort_versions_eq key_of_examples less_pyfloat_def)
  ultimately show ?thesis
    using sort_versions_eq [of versions] descending_sorted [of key_of versions]
      descending_stable [of key_of _ versions] version_key_key_of [of v]
    by simp
qed

theorem order_descending_stable_witness:
  "sort_versions [''a1'', ''V2'', ''b1'', ''V1.0''] = Inr [''V2'', ''a1'', ''b1'', ''V1.0'']"
proof -
  let ?xs = "[''a1'', ''V2'', ''b1'', ''V1.0'']"
  obtain s where s: "sort_versions ?xs = Inr s"
    using order_descending_stable [of ?xs] by blast
  have k: "key_of ''a1'' = [Finite 1]" "key_of ''b1'' = [Finite 1]" "key_of ''V1.0'' = [Finite 1]"
    "key_of ''V2'' = [Finite 2]"
    by (simp_all add: key_of_def version_key_def isdigit_def isdigit_char_def is_d_def
        py_float_def digits_value_def digit_value_def binary64_small)
  show ?thesis
    using s by (simp add: sort_versions_eq k less_pyfloat_def)
qed

section \<open>The package-release pipeline\<close>

text \<open>
  C4, as the code has it.  When the API lookup fails, the releases page is tried; when
  that page has no release header, the tags page is tried, and when its first row gives
  no tag link, the links of the tags page are scanned.  But an exception raised on the
  way ends the pipeline with the chained failure, and a release header in which no
  version tag is found ends it with the failure \<open>Could not find version tag\<close>, whatever the
  tags page holds.
\<close>

theorem pangolin_fallthrough:
  assumes "pangolin_api w = Inl e"
  shows "check_pangolin_version w
           = (case pangolin_html w of
                Inr info \<Rightarrow> info
              | Inl nested_e \<Rightarrow>
                  Failure (''Failed to retrieve Pangolin version: '' @ e @ '', then '' @ nested_e))
         \<and> (\<forall>r. requests_get w pangolin_releases_url = Inr r \<and> raise_for_status r = None
                \<and> first_selected release_selectors (soup r) = None
              \<longrightarrow> pangolin_html w = pangolin_tags w)
         \<and> (\<forall>r. requests_get w pangolin_tags_url = Inr r \<and> raise_for_status r = None
                \<and> (case select_one ''div'' (HasClass [''Box-row'']) (soup r) of
                      None \<Rightarrow> True
                    | Some row \<Rightarrow> select_one ''a'' (AttrContains ''href'' ''/releases/tag/'') row = None)
              \<longrightarrow> pangolin_tags w = Inr (pangolin_link_scan (soup r)))
         \<and> (\<forall>r release_element. requests_get w pangolin_releases_url = Inr r
                \<and> raise_for_status r = None
                \<and> first_selected release_selectors (soup r) = Some release_element
                \<and> first_selected version_tag_selectors release_element = None
              \<longrightarrow> check_pangolin_version w = Failure ''Could not find version tag'')
         \<and> (\<forall>nested_e. requests_get w pangolin_releases_url = Inl nested_e
              \<longrightarrow> check_pangolin_version w
                    = Failure (''Failed to retrieve Pangolin version: '' @ e @ '', then '' @ nested_e))"
proof -
  have 1: "check_pangolin_version w
           = (case pangolin_html w of
                Inr info \<Rightarrow> info
              | Inl nested_e \<Rightarrow>
                  Failure (''Failed to retrieve Pangolin version: '' @ e @ '', then '' @ nested_e))"
    using assms by (simp add: check_pangolin_version_def)
  have 2: "pangolin_html w = pangolin_tags w"
    if "requests_get w pangolin_releases_url = Inr r" "raise_for_status r = None"
      "first_selected release_selectors (soup r) = None" for r
    using that by (simp add: pangolin_html_def)
  have 3: "pangolin_tags w = Inr (pangolin_link_scan (soup r))"
    if "requests_get w pangolin_tags_url = Inr r" "raise_for_status r = None"
      "case select_one ''div'' (HasClass [''Box-row'']) (soup r) of
         None \<Rightarrow> True
       | Some row \<Rightarrow> select_one ''a'' (AttrContains ''href'' ''/releases/tag/'') row = None" for r
    using that by (simp add: pangolin_tags_def split: option.splits)
  have 4: "check_pangolin_version w = Failure ''Could not find version tag''"
    if "requests_get w pangolin_releases_url = Inr r" "raise_for_status r = None"
      "first_selected release_selectors (soup r) = Some release_element"
      "first_selected version_tag_selectors release_element = None" for r release_element
    using that by (simp add: 1 pangolin_html_def pangolin_release_def)
  have 5: "check_pangolin_version w
             = Failure (''Failed to retrieve Pangolin version: '' @ e @ '', then '' @ nested_e)"
    if "requests_get w pangolin_releases_url = Inl nested_e" for nested_e
    using that by (simp add: 1 pangolin_html_def)
  from 1 2 3 4 5 show ?thesis
    by blast
qed

theorem pangolin_fallthrough_witness:
  "pangolin_api world_tags_only = Inl ''connection refused''
   \<and> requests_get world_tags_only pangolin_releases_url = Inr (page_response (document []))
   \<and> raise_for_status (page_response (document [])) = None
   \<and> first_selected release_selectors (soup (page_response (document []))) = None
   \<and> check_pangolin_version world_tags_only
       = Release (JStr ''v4.3'') ''Unknown''
           (JStr ''https://github.com/cov-lineages/pangolin/releases/tag/v4.3'')"
proof -
  have a: "pangolin_api world_tags_only = Inl ''connection refused''"
    unfolding world_tags_only_def by (rule pangolin_api_refused) (simp add: url_defs)
  have g: "requests_get world_tags_only pangolin_releases_url = Inr (page_response (document []))"
    by (simp add: world_tags_only_def serving_def url_defs)
  have s: "raise_for_status (page_response (document [])) = None"
    by (simp add: page_response_def)
  have f: "first_selected release_selectors (soup (page_response (document []))) = None"
    by (simp add: page_response_def release_selectors_def query_defs)
  from pangolin_fallthrough [OF a] g s f have "pangolin_html world_tags_only = pangolin_tags world_tags_only"
    by blast
  with pangolin_fallthrough [OF a] a g s f show ?thesis
    by (simp add: tags_v4_3_eval)
qed

text \<open>
  A release header without a version tag, and a tags page that names the version: the
  pipeline returns a failure and does not go on to the tags page.
\<close>

theorem header_without_tag_counterexample:
  "check_pangolin_version world_header_without_tag = Failure ''Could not find version tag''
   \<and> pangolin_tags world_header_without_tag
       = Inr (Release (JStr ''v4.3'') ''Unknown''
               (JStr ''https://github.com/cov-lineages/pangolin/releases/tag/v4.3''))"
  by (simp add: header_without_tag_eval tags_v4_3_eval)

text \<open>
  C5, as the code has it.  When the API lookup has failed with \<open>e\<close>, a failure of the
  pipeline names both causes exactly when the HTML part ended by raising \<open>nested_e\<close>; when
  the HTML part found nothing without raising, the message is one of two fixed texts
  and names no cause.
\<close>

theorem pangolin_failure_message:
  assumes "pangolin_api w = Inl e"
  shows "(\<forall>nested_e. pangolin_html w = Inl nested_e
            \<longrightarrow> check_pangolin_version w
                  = Failure (''Failed to retrieve Pangolin version: '' @ e @ '', then '' @ nested_e))
         \<and> (\<forall>msg. check_pangolin_version w = Failure msg
            \<longrightarrow> (\<exists>nested_e. pangolin_html w = Inl nested_e
                      \<and> msg = ''Failed to retrieve Pangolin version: '' @ e @ '', then '' @ nested_e)
                \<or> (pangolin_html w = Inr (Failure msg)
                      \<and> (msg = ''Could not find version tag''
                          \<or> msg = ''Could not find Pangolin version information'')))"
proof (intro conjI allI impI)
  fix nested_e
  assume "pangolin_html w = Inl nested_e"
  with assms show "check_pangolin_version w
      = Failure (''Failed to retrieve Pangolin version: '' @ e @ '', then '' @ nested_e)"
    by (simp add: check_pangolin_version_def)
next
  fix msg
  assume f: "check_pangolin_version w = Failure msg"
  show "(\<exists>nested_e. pangolin_html w = Inl nested_e
            \<and> msg = ''Failed to retrieve Pangolin version: '' @ e @ '', then '' @ nested_e)
        \<or> (pangolin_html w = Inr (Failure msg)
            \<and> (msg = ''Could not find version tag''
                \<or> msg = ''Could not find Pangolin version information''))"
  proof (cases "pangolin_html w")
    case (Inl nested_e)
    with assms f show ?thesis
      by (simp add: check_pangolin_version_def)
  next
    case (Inr info)
    with assms f have i: "info = Failure msg"
      by (simp add: check_pangolin_version_def)
    from Inr have "html_outcome info"
      by (rule pangolin_html_outcome)
    with i Inr show ?thesis
      by (simp add: html_outcome_def)
  qed
qed

theorem pangolin_failure_message_witness:
  "pangolin_api world_offline = Inl ''connection refused''
   \<and> pangolin_html world_offline = Inl ''connection refused''
   \<and> check_pangolin_version world_offline
       = Failure ''Failed to retrieve Pangolin version: connection refused, then connection refused''"
proof -
  have a: "pangolin_api world_offline = Inl ''connection refused''"
    unfolding world_offline_def by (rule pangolin_api_refused) simp
  have h: "pangolin_html world_offline = Inl ''connection refused''"
    by (simp add: pangolin_html_def world_offline_def serving_def)
  have "check_pangolin_version world_offline
          = Failure (''Failed to retrieve Pangolin version: '' @ ''connection refused''
                       @ '', then '' @ ''connection refused'')"
    by (rule pangolin_failure_message [OF a, THEN conjunct1, rule_format, OF h])
  with a h show ?thesis
    by simp
qed

text \<open>
  The API lookup fails and both pages are empty: all four strategies have failed, and
  the message does not contain the cause of the API failure.
\<close>

theorem nothing_found_counterexample:
  "pangolin_api world_nothing_found = Inl ''connection refused''
   \<and> check_pangolin_version world_nothing_found
       = Failure ''Could not find Pangolin version information''
   \<and> \<not> contains ''connection refused'' ''Could not find Pangolin version information''"
proof -
  have a: "pangolin_api world_nothing_found = Inl ''connection refused''"
    unfolding world_nothing_found_def by (rule pangolin_api_refused) (simp add: url_defs)
  have h: "pangolin_html world_nothing_found
             = Inr (Failure ''Could not find Pangolin version information'')"
    by (simp add: pangolin_html_def pangolin_tags_def pangolin_link_scan_def
        world_nothing_found_def serving_def url_defs page_response_def release_selectors_def
        query_defs)
  have c: "check_pangolin_version world_nothing_found
             = Failure ''Could not find Pangolin version information''"
    unfolding check_pangolin_version_def a h by simp
  have n: "\<not> contains ''connection refused'' ''Could not find Pangolin version information''"
    by simp
  from a c n show ?thesis
    by (intro conjI)
qed

section \<open>Primer set A\<close>

text \<open>
  C7, as the code has it.  On every page that was fetched, \<open>names\<close> are the texts of the
  name links of the listing rows that have both a directory icon and a name link.
  The names that look like a version are used, and all names when none does; the
  result is a failure exactly when there is no such name, and otherwise it gives the
  names sorted and the first of them as the latest.  For the directories \<open>V1\<close> and \<open>V2\<close>,
  in either order, the latest is \<open>V2\<close> and the list is \<open>V2\<close>, \<open>V1\<close>; for the directories
  \<open>alpha\<close> and \<open>beta\<close>, which do not look like versions, both are reported.
\<close>

theorem primer_set_A_fallback:
  assumes "requests_get w sarscov2_url = Inr r" and "raise_for_status r = None"
    and "names = List.map_filter
           (\<lambda>row. case find_tag ''svg'' (HasClass [''octicon-file-directory-fill'']) row of
                    None \<Rightarrow> None
                  | Some icon \<Rightarrow>
                      map_option (\<lambda>name_element. strip (get_text name_element))
                        (find_tag ''a'' (HasClass [''js-navigation-open'']) row))
           (find_all ''div'' (HasClass [''Box-row'']) (soup r))"
    and "versions = (if filter version_like names = [] then names else filter version_like names)"
  shows "(\<exists>sorted_versions. sort_versions versions = Inr sorted_versions
               \<and> mset sorted_versions = mset versions
               \<and> check_artic_sarscov2_primers w
                   = (case sorted_versions of
                        [] \<Rightarrow> Failure ''No primer versions found''
                      | latest # others \<Rightarrow>
                          PrimerSet latest sorted_versions (sarscov2_url @ ''/'' @ latest)))
         \<and> ((\<exists>msg. check_artic_sarscov2_primers w = Failure msg) \<longleftrightarrow> names = [])
         \<and> (names = [''V1'', ''V2''] \<or> names = [''V2'', ''V1'']
              \<longrightarrow> check_artic_sarscov2_primers w
                    = PrimerSet ''V2'' [''V2'', ''V1''] (sarscov2_url @ ''/V2''))
         \<and> check_artic_sarscov2_primers (serving [(sarscov2_url, page_response listing_plain)])
             = PrimerSet ''alpha'' [''alpha'', ''beta''] (sarscov2_url @ ''/alpha'')"
proof -
  have n: "names = directory_rows (find_all ''div'' (HasClass [''Box-row'']) (soup r))"
    unfolding assms(3) by (rule directory_rows_map_filter [symmetric])
  obtain s where s: "sort_versions versions = Inr s"
    using sort_versions_eq by blast
  have m: "mset s = mset versions"
    using s by (rule sort_versions_mset)
  have c: "check_artic_sarscov2_primers w
             = (case s of
                  [] \<Rightarrow> Failure ''No primer versions found''
                | latest # others \<Rightarrow> PrimerSet latest s (sarscov2_url @ ''/'' @ latest))"
    using sarscov2_fetched [OF assms(1,2)] sarscov2_primers_sorted [OF n assms(4) s] by simp
  have e: "versions = [] \<longleftrightarrow> names = []"
    using assms(4) by auto
  have f: "(\<exists>msg. check_artic_sarscov2_primers w = Failure msg) \<longleftrightarrow> names = []"
    using c e sort_versions_Nil_iff [OF s] by (cases s) auto
  have v: "check_artic_sarscov2_primers w = PrimerSet ''V2'' [''V2'', ''V1''] (sarscov2_url @ ''/V2'')"
    if "names = [''V1'', ''V2''] \<or> names = [''V2'', ''V1'']"
  proof -
    have "filter version_like names = names"
      using that by (auto simp: is_d_def)
    then have "versions = names"
      using assms(4) by simp
    then have "s = [''V2'', ''V1'']"
      using s that sort_V1_V2 by auto
    with c show ?thesis
      by simp
  qed
  from s m c f v plain_result show ?thesis
    by blast
qed

theorem primer_set_A_fallback_witness:
  "requests_get (serving [(sarscov2_url, page_response listing_plain)]) sarscov2_url
     = Inr (page_response listing_plain)
   \<and> raise_for_status (page_response listing_plain) = None
   \<and> directory_rows (find_all ''div'' (HasClass [''Box-row'']) (soup (page_response listing_plain)))
       = [''alpha'', ''beta'']
   \<and> filter version_like [''alpha'', ''beta''] = []
   \<and> sort_versions [''alpha'', ''beta''] = Inr [''alpha'', ''beta'']
   \<and> check_artic_sarscov2_primers (serving [(sarscov2_url, page_response listing_plain)])
       = PrimerSet ''alpha'' [''alpha'', ''beta''] (sarscov2_url @ ''/alpha'')"
proof -
  let ?w = "serving [(sarscov2_url, page_response listing_plain)]"
  have g: "requests_get ?w sarscov2_url = Inr (page_response listing_plain)"
    by (simp add: serving_def)
  have t: "raise_for_status (page_response listing_plain) = None"
    by (simp add: page_response_def)
  have d: "directory_rows (find_all ''div'' (HasClass [''Box-row'']) (soup (page_response listing_plain)))
             = [''alpha'', ''beta'']"
    using plain_names by (simp add: page_response_def)
  have n: "[''alpha'', ''beta'']
      = List.map_filter
          (\<lambda>row. case find_tag ''svg'' (HasClass [''octicon-file-directory-fill'']) row of
                   None \<Rightarrow> None
                 | Some icon \<Rightarrow>
                     map_option (\<lambda>name_element. strip (get_text name_element))
                       (find_tag ''a'' (HasClass [''js-navigation-open'']) row))
          (find_all ''div'' (HasClass [''Box-row'']) (soup (page_response listing_plain)))"
    unfolding d [symmetric] by (rule directory_rows_map_filter)
  have v: "filter version_like [''alpha'', ''beta''] = []"
    by (simp add: is_d_def)
  have e: "[''alpha'', ''beta'']
      = (if filter version_like [''alpha'', ''beta''] = [] then [''alpha'', ''beta'']
         else filter version_like [''alpha'', ''beta''])"
    unfolding v by simp
  obtain s where s: "sort_versions [''alpha'', ''beta''] = Inr s"
    "check_artic_sarscov2_primers ?w
       = (case s of
            [] \<Rightarrow> Failure ''No primer versions found''
          | latest # others \<Rightarrow> PrimerSet latest s (sarscov2_url @ ''/'' @ latest))"
    using primer_set_A_fallback [OF g t n e] by blast
  from s(1) have "s = [''alpha'', ''beta'']"
    by (simp add: sort_plain)
  with s g t d v show ?thesis
    by (simp add: sort_plain is_d_def)
qed

text \<open>
  A listing row with a directory icon, whose link lacks the navigation class: a
  directory-like row is found, and the result is a failure.
\<close>

theorem icon_row_counterexample:
  "find_all ''div'' (HasClass [''Box-row'']) listing_plain_link = [icon_row_plain_link]
   \<and> find_tag ''svg'' (HasClass [''octicon-file-directory-fill'']) icon_row_plain_link
       = Some directory_icon
   \<and> check_artic_sarscov2_primers (serving [(sarscov2_url, page_response listing_plain_link)])
       = Failure ''No primer versions found''"
  by (simp add: plain_link_result)

section \<open>Primer set B\<close>

text \<open>
  C10.  When the scan of the links finds names, the list that is reported holds these
  names, each once, and none of \<open>..\<close>, \<open>.\<close> and \<open>nCoV-2019\<close>.  When it finds none, the names of
  the rows by role, or else of the rows by class, are reported as they were collected,
  only sorted: repeats stay, and so do the three names, as a page for each of the two
  shows.
\<close>

theorem primer_set_B_dedup_first_only:
  "(ncov2019_links page \<noteq> []
      \<longrightarrow> (\<exists>vs. check_artic_ncov2019_primers (serving [(ncov2019_url, page_response page)])
                  = PrimerList vs ncov2019_url
                \<and> mset vs = mset (ncov2019_links page) \<and> distinct vs
                \<and> ''..'' \<notin> set vs \<and> ''.'' \<notin> set vs \<and> ''nCoV-2019'' \<notin> set vs))
   \<and> (ncov2019_links page = [] \<and> ncov2019_versions page \<noteq> []
      \<longrightarrow> (\<exists>vs. check_artic_ncov2019_primers (serving [(ncov2019_url, page_response page)])
                  = PrimerList vs ncov2019_url
                \<and> mset vs = mset (if ncov2019_role_rows page \<noteq> [] then ncov2019_role_rows page
                                    else ncov2019_class_rows page)))
   \<and> check_artic_ncov2019_primers (serving [(ncov2019_url, page_response page_links)])
       = PrimerList [''V2'', ''V1''] ncov2019_url
   \<and> ncov2019_links page_role_rows = []
   \<and> check_artic_ncov2019_primers (serving [(ncov2019_url, page_response page_role_rows)])
       = PrimerList [''V3'', ''..'', ''..''] ncov2019_url
   \<and> ncov2019_links page_class_rows = [] \<and> ncov2019_role_rows page_class_rows = []
   \<and> check_artic_ncov2019_primers (serving [(ncov2019_url, page_response page_class_rows)])
       = PrimerList [''nCoV-2019'', ''nCoV-2019'', ''V3''] ncov2019_url"
proof -
  have 1: "\<exists>vs. ncov2019_primers page = PrimerList vs ncov2019_url
              \<and> mset vs = mset (ncov2019_links page) \<and> distinct vs
              \<and> ''..'' \<notin> set vs \<and> ''.'' \<notin> set vs \<and> ''nCoV-2019'' \<notin> set vs"
    if l: "ncov2019_links page \<noteq> []"
  proof -
    have v: "ncov2019_versions page = ncov2019_links page"
      using l by (simp add: ncov2019_versions_def)
    then obtain vs where vs: "ncov2019_primers page = PrimerList vs ncov2019_url"
      "mset vs = mset (ncov2019_links page)"
      using ncov2019_primers_sorted [of page] l by auto
    from vs(2) have "set vs = set (ncov2019_links page)" "distinct vs"
      using ncov2019_links_clean(1) [of page] mset_eq_setD mset_eq_imp_distinct_iff by blast+
    with vs show ?thesis
      using ncov2019_links_clean(2-4) [of page] by auto
  qed
  have 2: "\<exists>vs. ncov2019_primers page = PrimerList vs ncov2019_url
              \<and> mset vs = mset (if ncov2019_role_rows page \<noteq> [] then ncov2019_role_rows page
                                  else ncov2019_class_rows page)"
    if "ncov2019_links page = [] \<and> ncov2019_versions page \<noteq> []"
    using that ncov2019_primers_sorted [of page] by (auto simp: ncov2019_versions_def)
  from 1 2 show ?thesis
    by (simp add: ncov2019_fetched ncov2019_examples ncov2019_primers_examples)
qed

theorem primer_set_B_dedup_first_only_witness:
  "ncov2019_links page_links \<noteq> []
   \<and> (\<exists>vs. check_artic_ncov2019_primers (serving [(ncov2019_url, page_response page_links)])
            = PrimerList vs ncov2019_url
         \<and> distinct vs \<and> ''..'' \<notin> set vs)
   \<and> ncov2019_links page_role_rows = [] \<and> ncov2019_versions page_role_rows \<noteq> []
   \<and> (\<exists>vs. check_artic_ncov2019_primers (serving [(ncov2019_url, page_response page_role_rows)])
            = PrimerList vs ncov2019_url
         \<and> mset vs = mset (ncov2019_role_rows page_role_rows))
   \<and> ncov2019_role_rows page_role_rows = [''..'', ''V3'', ''..'']"
proof -
  have l: "ncov2019_links page_links \<noteq> []"
    by (simp add: ncov2019_examples)
  with primer_set_B_dedup_first_only [of page_links]
  have a: "\<exists>vs. check_artic_ncov2019_primers (serving [(ncov2019_url, page_response page_links)])
             = PrimerList vs ncov2019_url
          \<and> distinct vs \<and> ''..'' \<notin> set vs"
    by blast
  have r: "ncov2019_links page_role_rows = [] \<and> ncov2019_versions page_role_rows \<noteq> []"
    by (simp add: ncov2019_versions_def ncov2019_examples)
  have n: "ncov2019_role_rows page_role_rows \<noteq> []"
    by (simp add: ncov2019_examples)
  from r primer_set_B_dedup_first_only [of page_role_rows]
  have "\<exists>vs. check_artic_ncov2019_primers (serving [(ncov2019_url, page_response page_role_rows)])
             = PrimerList vs ncov2019_url
          \<and> mset vs = mset (if ncov2019_role_rows page_role_rows \<noteq> []
                              then ncov2019_role_rows page_role_rows
                              else ncov2019_class_rows page_role_rows)"
    by blast
  then have b: "\<exists>vs. check_artic_ncov2019_primers (serving [(ncov2019_url, page_response page_role_rows)])
             = PrimerList vs ncov2019_url
          \<and> mset vs = mset (ncov2019_role_rows page_role_rows)"
    using n by simp
  from l a r b show ?thesis
    by (simp add: ncov2019_examples)
qed

section \<open>The four pipelines and the report\<close>







end
